theory Spec2Isabelle
  imports Complex_Main "HOL-Library.Multiset"
begin

section \<open>Python strings\<close>

text \<open>
  A Python \<^verbatim>\<open>str\<close> is a sequence of Unicode code points: \<^verbatim>\<open>len\<close>, slicing, \<^verbatim>\<open>in\<close>
  and the \<^verbatim>\<open>re\<close> module all count code points. A string is therefore a list of code
  points, each a natural number. ASCII literals of the source are written through
  \<open>ascii\<close>; literals with CJK characters are written out as code points, with the
  characters named in the accompanying text.
\<close>

type_synonym ustring = "nat list"

definition ascii :: "string \<Rightarrow> ustring" where
  "ascii s = map of_char s"

definition in_ranges :: "(nat \<times> nat) list \<Rightarrow> nat \<Rightarrow> bool" where
  "in_ranges rs c = list_ex (\<lambda>(lo, hi). lo \<le> c \<and> c \<le> hi) rs"

text \<open>
  \<^verbatim>\<open>str.isspace\<close>, \<^verbatim>\<open>str.strip()\<close> and the white-space class of the \<^verbatim>\<open>re\<close> module (on \<^verbatim>\<open>str\<close>
  patterns) share one set of white-space code points.
\<close>

definition space_ranges :: "(nat \<times> nat) list" where
  "space_ranges =
  [(9, 13), (28, 32), (133, 133), (160, 160), (5760, 5760), (8192, 8202), (8232, 8233),
   (8239, 8239), (8287, 8287), (12288, 12288)]"

definition py_isspace :: "nat \<Rightarrow> bool" where
  "py_isspace c = in_ranges space_ranges c"

text \<open>
  \<^verbatim>\<open>str.isdigit\<close> holds of the code points of numeric type Digit or Decimal
  (Unicode 14); the digit class of the \<^verbatim>\<open>re\<close> module holds of the decimal digits
  (category Nd) only.
\<close>

definition digit_ranges :: "(nat \<times> nat) list" where
  "digit_ranges =
  [(48, 57), (178, 179), (185, 185), (1632, 1641), (1776, 1785), (1984, 1993),
   (2406, 2415), (2534, 2543), (2662, 2671), (2790, 2799), (2918, 2927), (3046, 3055),
   (3174, 3183), (3302, 3311), (3430, 3439), (3558, 3567), (3664, 3673), (3792, 3801),
   (3872, 3881), (4160, 4169), (4240, 4249), (4969, 4977), (6112, 6121), (6160, 6169),
   (6470, 6479), (6608, 6618), (6784, 6793), (6800, 6809), (6992, 7001), (7088, 7097),
   (7232, 7241), (7248, 7257), (8304, 8304), (8308, 8313), (8320, 8329), (9312, 9320),
   (9332, 9340), (9352, 9360), (9450, 9450), (9461, 9469), (9471, 9471), (10102, 10110),
   (10112, 10120), (10122, 10130), (42528, 42537), (43216, 43225), (43264, 43273),
   (43472, 43481), (43504, 43513), (43600, 43609), (44016, 44025), (65296, 65305),
   (66720, 66729), (68160, 68163), (68912, 68921), (69216, 69224), (69714, 69722),
   (69734, 69743), (69872, 69881), (69942, 69951), (70096, 70105), (70384, 70393),
   (70736, 70745), (70864, 70873), (71248, 71257), (71360, 71369), (71472, 71481),
   (71904, 71913), (72016, 72025), (72784, 72793), (73040, 73049), (73120, 73129),
   (92768, 92777), (92864, 92873), (93008, 93017), (120782, 120831), (123200, 123209),
   (123632, 123641), (125264, 125273), (127232, 127242), (130032, 130041)]"

definition decimal_ranges :: "(nat \<times> nat) list" where
  "decimal_ranges =
  [(48, 57), (1632, 1641), (1776, 1785), (1984, 1993), (2406, 2415), (2534, 2543),
   (2662, 2671), (2790, 2799), (2918, 2927), (3046, 3055), (3174, 3183), (3302, 3311),
   (3430, 3439), (3558, 3567), (3664, 3673), (3792, 3801), (3872, 3881), (4160, 4169),
   (4240, 4249), (6112, 6121), (6160, 6169), (6470, 6479), (6608, 6617), (6784, 6793),
   (6800, 6809), (6992, 7001), (7088, 7097), (7232, 7241), (7248, 7257), (42528, 42537),
   (43216, 43225), (43264, 43273), (43472, 43481), (43504, 43513), (43600, 43609),
   (44016, 44025), (65296, 65305), (66720, 66729), (68912, 68921), (69734, 69743),
   (69872, 69881), (69942, 69951), (70096, 70105), (70384, 70393), (70736, 70745),
   (70864, 70873), (71248, 71257), (71360, 71369), (71472, 71481), (71904, 71913),
   (72016, 72025), (72784, 72793), (73040, 73049), (73120, 73129), (92768, 92777),
   (92864, 92873), (93008, 93017), (120782, 120831), (123200, 123209), (123632, 123641),
   (125264, 125273), (130032, 130041)]"

definition isdigit_char :: "nat \<Rightarrow> bool" where
  "isdigit_char c = in_ranges digit_ranges c"

definition re_digit :: "nat \<Rightarrow> bool" where
  "re_digit c = in_ranges decimal_ranges c"

text \<open>\<^verbatim>\<open>s.isdigit()\<close>: every character is a digit and there is at least one.\<close>

definition py_isdigit :: "ustring \<Rightarrow> bool" where
  "py_isdigit s = (s \<noteq> [] \<and> list_all isdigit_char s)"

text \<open>\<^verbatim>\<open>s.strip()\<close>, \<^verbatim>\<open>s.lstrip(chars)\<close>, \<^verbatim>\<open>s.startswith(p)\<close>, \<^verbatim>\<open>p in s\<close>.\<close>

definition py_strip :: "ustring \<Rightarrow> ustring" where
  "py_strip s = rev (dropWhile py_isspace (rev (dropWhile py_isspace s)))"

definition py_lstrip :: "ustring \<Rightarrow> ustring \<Rightarrow> ustring" where
  "py_lstrip chars s = dropWhile (\<lambda>c. c \<in> set chars) s"

definition startswith :: "ustring \<Rightarrow> ustring \<Rightarrow> bool" where
  "startswith s p = (take (length p) s = p)"

fun py_in :: "ustring \<Rightarrow> ustring \<Rightarrow> bool" where
  "py_in p [] = (p = [])"
| "py_in p (c # cs) = (startswith (c # cs) p \<or> py_in p cs)"

text \<open>
  \<^verbatim>\<open>s.split(sep)[0]\<close>: the part of \<open>s\<close> before the first occurrence of \<open>sep\<close>, all of
  \<open>s\<close> when there is none.
\<close>

fun split_first :: "ustring \<Rightarrow> ustring \<Rightarrow> ustring" where
  "split_first sep [] = []"
| "split_first sep (c # cs) =
     (if startswith (c # cs) sep then [] else c # split_first sep cs)"

text \<open>
  \<^verbatim>\<open>s.replace(old, new)\<close> for a non-empty \<open>old\<close>: the occurrences are replaced from
  the left, without overlap.
\<close>

fun py_replace :: "ustring \<Rightarrow> ustring \<Rightarrow> ustring \<Rightarrow> ustring" where
  "py_replace old new [] = []"
| "py_replace old new (c # cs) =
     (if startswith (c # cs) old
      then new @ py_replace old new (drop (length old - 1) cs)
      else c # py_replace old new cs)"

text \<open>Splitting at line feeds, \<^verbatim>\<open>s.split(LF)\<close>, and joining with them, \<^verbatim>\<open>LF.join(lines)\<close>;
  the line feed is code point 10.\<close>

fun split_nl :: "ustring \<Rightarrow> ustring list" where
  "split_nl [] = [[]]"
| "split_nl (c # cs) =
     (if c = 10 then [] # split_nl cs
      else (case split_nl cs of p # ps \<Rightarrow> (c # p) # ps | [] \<Rightarrow> [[c]]))"

fun join_nl :: "ustring list \<Rightarrow> ustring" where
  "join_nl [] = []"
| "join_nl [l] = l"
| "join_nl (l # ls) = l @ [10] @ join_nl ls"

section \<open>Unit identifiers\<close>

text \<open>
  \<^verbatim>\<open>DataProcessor._normalize_unit_id\<close> deletes every character of a fixed
  class and lower-cases the rest. The class holds white space, the Latin
  and full-width parentheses, the square and lenticular brackets, hyphen-minus, en and em
  dash, underscore, middle dot, bullet, the Latin and full-width colon and comma, the
  ideographic and full-width full stop, full stop, slash and backslash.
\<close>

definition unit_id_punct :: "nat list" where
  "unit_id_punct =
     [40, 41, 65288, 65289, 91, 93, 12304, 12305, 45, 8211, 8212, 95, 183, 8226, 58, 65306,
      44, 65292, 12290, 65294, 46, 47, 92]"

definition unit_id_stripped :: "nat \<Rightarrow> bool" where
  "unit_id_stripped c = (py_isspace c \<or> c \<in> set unit_id_punct)"

text \<open>
  \<^verbatim>\<open>str.lower\<close> is a function of the whole string (a capital sigma is lowered according
  to its neighbours) over a table of some 1400 code points; it is a parameter \<open>lower\<close>
  of every definition that calls it.
\<close>

definition normalize_unit_id :: "(ustring \<Rightarrow> ustring) \<Rightarrow> ustring \<Rightarrow> ustring" where
  "normalize_unit_id lower unit_name =
     (if unit_name = [] then []
      else lower (filter (\<lambda>c. \<not> unit_id_stripped c) unit_name))"

section \<open>Office locations\<close>

text \<open>
  \<^verbatim>\<open>DataProcessor._extract_office_locations\<close> reads a building page line by line. The
  floor character (U+6A13, "lou") is code point 27155, the letter B is 66, the hyphen 45,
  the parentheses 40 and 41, the hash sign 35.

  The floor pattern is an optional \<^verbatim>\<open>##\<close> with white space, then either digits and the
  floor character, or B and digits; group 1 is that token. The digits are matched
  greedily; giving one back leaves a digit where the floor character (or the end of the
  token) is expected, so only the longest run is tried.
\<close>

definition floor_token :: "ustring \<Rightarrow> ustring option" where
  "floor_token s =
     (if takeWhile re_digit s \<noteq> [] \<and> startswith (dropWhile re_digit s) [27155]
      then Some (takeWhile re_digit s @ [27155])
      else if startswith s [66] \<and> takeWhile re_digit (tl s) \<noteq> []
      then Some (66 # takeWhile re_digit (tl s))
      else None)"

definition floor_match :: "ustring \<Rightarrow> ustring option" where
  "floor_match line =
     (if startswith line [35, 35]
      then (case floor_token (dropWhile py_isspace (drop 2 line)) of
              Some t \<Rightarrow> Some t
            | None \<Rightarrow> floor_token line)
      else floor_token line)"

text \<open>
  The office pattern, on a stripped line without line feed: a hyphen, white space, the
  room (digits, or B and digits), at least one white-space character, the name (group 2,
  matched lazily, at least one character) and an optional parenthesised English name
  (group 3, lazy, at least one character) that ends the line. The lazy name grows one
  character at a time until the rest of the line is the parenthesised group or is empty.
\<close>

definition room_token :: "ustring \<Rightarrow> (ustring \<times> ustring) option" where
  "room_token s =
     (if takeWhile re_digit s \<noteq> []
      then Some (takeWhile re_digit s, dropWhile re_digit s)
      else if startswith s [66] \<and> takeWhile re_digit (tl s) \<noteq> []
      then Some (66 # takeWhile re_digit (tl s), dropWhile re_digit (tl s))
      else None)"

definition paren_tail :: "ustring \<Rightarrow> ustring option" where
  "paren_tail r =
     (let r1 = dropWhile py_isspace r
      in if 3 \<le> length r1 \<and> hd r1 = 40 \<and> last r1 = 41
         then Some (butlast (tl r1)) else None)"

fun lazy_name :: "ustring \<Rightarrow> ustring \<Rightarrow> ustring \<times> ustring option" where
  "lazy_name pre [] = (pre, None)"
| "lazy_name pre (c # cs) =
     (case paren_tail (c # cs) of
        Some x \<Rightarrow> (pre, Some x)
      | None \<Rightarrow> lazy_name (pre @ [c]) cs)"

definition office_match :: "ustring \<Rightarrow> (ustring \<times> ustring \<times> ustring option) option" where
  "office_match line =
     (if startswith line [45]
      then (case room_token (dropWhile py_isspace (tl line)) of
              None \<Rightarrow> None
            | Some (room, rest) \<Rightarrow>
                (if rest \<noteq> [] \<and> py_isspace (hd rest)
                 then (case dropWhile py_isspace rest of
                         [] \<Rightarrow> None
                       | c # cs \<Rightarrow> Some (room, lazy_name [c] cs))
                 else None))
      else None)"

record office =
  building :: ustring
  floor_name :: ustring
  room :: ustring
  name_zh :: ustring
  name_en :: ustring

text \<open>
  The loop over the lines, with the current floor as its state. The source appends each
  record to a list; here the records come out in the same order.
\<close>

fun extract_lines :: "ustring \<Rightarrow> ustring \<Rightarrow> ustring list \<Rightarrow> office list" where
  "extract_lines building_name current_floor [] = []"
| "extract_lines building_name current_floor (l # ls) =
     (let line = py_strip l
      in case floor_match line of
           Some t \<Rightarrow> extract_lines building_name t ls
         | None \<Rightarrow>
             (case office_match line of
                Some (rm, nm, en) \<Rightarrow>
                  (if current_floor \<noteq> []
                   then \<lparr>building = building_name, floor_name = current_floor, room = rm,
                         name_zh = py_strip nm,
                         name_en = (case en of Some e \<Rightarrow> py_strip e | None \<Rightarrow> [])\<rparr>
                        # extract_lines building_name current_floor ls
                   else extract_lines building_name current_floor ls)
              | None \<Rightarrow> extract_lines building_name current_floor ls))"

definition extract_office_locations :: "ustring \<Rightarrow> ustring \<Rightarrow> office list" where
  "extract_office_locations content building_name =
     extract_lines building_name [] (split_nl content)"

text \<open>
  \<^verbatim>\<open>DataProcessor._create_location_chunks\<close>: one chunk for each office, its text a fixed
  bilingual template, its metadata a dictionary from keys to strings. The English
  sentence is added when the English name is not empty.
\<close>

record chunk =
  chunk_text :: ustring
  metadata :: "(string \<times> ustring) list"

definition location_text :: "office \<Rightarrow> ustring" where
  "location_text office =
     concat
      [[12304], name_zh office, [20301, 32622, 36039, 35338, 12305, 10],
       name_zh office, [10, 33521, 25991, 21517, 31281, 65306],
       name_en office, [10, 20301, 32622, 65306],
       building office, [32], floor_name office, [32], room office,
       [23460, 10, 24314, 31689, 29289, 65306],
       building office, [10, 27155, 23652, 65306],
       floor_name office, [10, 25151, 38291, 34399, 30908, 65306],
       room office, [10, 10],
       name_zh office, [20301, 26044], building office, floor_name office, [30340],
       room office, [23460, 12290, 10, 22914, 38656, 21069, 24448],
       name_zh office, [65292, 35531, 33267], building office, floor_name office, [25214],
       room office, [23460, 12290]]
     @ (if name_en office \<noteq> []
        then concat [[10], name_en office, ascii '' is located at Room '', room office,
                     ascii '', '', floor_name office, ascii '', '', building office, ascii ''.'']
        else [])"

definition create_location_chunks ::
  "(ustring \<Rightarrow> ustring) \<Rightarrow> office list \<Rightarrow> ustring \<Rightarrow> ustring \<Rightarrow> chunk list" where
  "create_location_chunks lower offices source_url department =
     map (\<lambda>office.
            \<lparr>chunk_text = location_text office,
             metadata =
               [(''title'', name_zh office @ [20301, 32622]),
                (''url'', source_url),
                (''department'', department),
                (''type'', ascii ''location''),
                (''unit_name'', name_zh office),
                (''unit_id'', normalize_unit_id lower (name_zh office)),
                (''building'', building office),
                (''floor'', floor_name office),
                (''room'', room office)]\<rparr>)
         offices"

text \<open>
  The floor in force after a run of lines: the token of the last floor header among them,
  or the floor in force before them when there is none.
\<close>

definition current_floor_after :: "ustring \<Rightarrow> ustring list \<Rightarrow> ustring" where
  "current_floor_after cur ls =
     last (cur # List.map_filter (\<lambda>l. floor_match (py_strip l)) ls)"

text \<open>
  An instance of the parameter \<open>lower\<close>: \<^verbatim>\<open>str.lower\<close> on strings whose cased letters are
  the ASCII capitals.
\<close>

definition ascii_lower :: "ustring \<Rightarrow> ustring" where
  "ascii_lower s = map (\<lambda>c. if 65 \<le> c \<and> c \<le> 90 then c + 32 else c) s"

text \<open>
  The two lines of the scenario of the specification: the header of floor 1, and the
  entry of room 106 with the Chinese name U+8A3B U+518A U+7D44 and the English name
  Registrar.
\<close>

definition scenario_floor_line :: ustring where
  "scenario_floor_line = ascii ''## 1'' @ [27155]"

definition scenario_office_line :: ustring where
  "scenario_office_line = ascii ''- 106 '' @ [35387, 20874, 32068] @ ascii '' (Registrar)''"

section \<open>Text cleaning\<close>

text \<open>
  \<^verbatim>\<open>DataProcessor.clean_text_advanced\<close>. The marker of an enrichment block is the
  ten-character heading \<^verbatim>\<open>[system supplementary location information]\<close> in lenticular
  brackets (U+3010 ... U+3011); the footer cut from admin pages is an English division
  name, a line feed and five CJK characters. Exceptions of the source are values of
  \<open>py_error\<close>.
\<close>

datatype py_error = IndexError | QueryError

definition enrichment_marker :: ustring where
  "enrichment_marker = [12304, 31995, 32113, 35036, 20805, 20301, 32622, 36039, 35338, 12305]"

definition admin_footer :: ustring where
  "admin_footer =
     ascii ''Overseas Chinese and Mainland Chinese Students Advising Division''
     @ [10, 21015, 21360, 25104, 32318, 21934]"

definition noise_patterns :: "ustring list" where
  "noise_patterns =
     [ascii ''Administration Building - List of Offices'',
      ascii ''Main Content'',
      [22320, 22294] @ ascii '' MAP'',
      [26657, 22290, 26223, 35264] @ ascii '' Campus View'',
      [26356, 22810, 36039, 35338],
      [23416, 26657, 22320, 22294, 19978, 30340, 24314, 29289, 32232, 34399],
      ascii ''Building ID /'',
      [21934, 20301, 28165, 21934] @ ascii '' / Offices list'']"

text \<open>Step 0 and the final clean-up: cut the text at the first enrichment marker.\<close>

definition strip_enrichment :: "ustring \<Rightarrow> ustring" where
  "strip_enrichment t =
     (if py_in enrichment_marker t then py_strip (split_first enrichment_marker t) else t)"

text \<open>Step 1: the fixes for the admin department.\<close>

definition dept_fixes :: "ustring \<Rightarrow> ustring \<Rightarrow> ustring" where
  "dept_fixes dept t =
     (if dept = ascii ''admin''
      then split_first admin_footer
             (py_replace (ascii ''Admi nistration'') (ascii ''Administration'') t)
      else t)"

text \<open>
  Step 2, the body of the first loop: \<open>None\<close> for a line that is dropped. The test for
  an empty line comes before the removal of the heading marks.
\<close>

definition clean_line :: "ustring \<Rightarrow> ustring option" where
  "clean_line l =
     (let line = py_strip l
      in if line = [] then None
         else if list_ex (\<lambda>pattern. py_in pattern line) noise_patterns then None
         else if startswith line [35, 35] then Some (py_strip (py_lstrip [35] line))
         else Some line)"

text \<open>Step 3, the second loop: room number, Chinese name and English name on three lines.\<close>

definition is_room :: "ustring \<Rightarrow> bool" where
  "is_room line =
     (py_isdigit line \<and> length line \<le> 4 \<or> startswith line [66] \<and> py_isdigit (drop 1 line))"

definition floor_header :: "ustring \<Rightarrow> ustring" where
  "floor_header line =
     (if py_in [27155] line \<and> length line < 10
      then (if \<not> startswith line [35, 35] then ascii ''## '' @ line else line)
      else line)"

definition office_entry :: "ustring \<Rightarrow> ustring \<Rightarrow> ustring \<Rightarrow> ustring" where
  "office_entry line next1 next2 = ascii ''- '' @ line @ [32] @ next1 @ ascii '' ('' @ next2 @ [41]"

definition cons_ok :: "'a \<Rightarrow> py_error + 'a list \<Rightarrow> py_error + 'a list" where
  "cons_ok x r = (case r of Inl e \<Rightarrow> Inl e | Inr xs \<Rightarrow> Inr (x # xs))"

text \<open>
  The argument is the part of \<^verbatim>\<open>clean_lines\<close> from index \<open>i\<close> on. Reading the first
  character of an empty \<^verbatim>\<open>next1\<close> raises.
\<close>

fun reformat :: "ustring list \<Rightarrow> py_error + ustring list" where
  "reformat [] = Inr []"
| "reformat (line # next1 # next2 # rest) =
     (if is_room line
      then (case next1 of
              [] \<Rightarrow> Inl IndexError
            | c # cs \<Rightarrow>
                if \<not> (isdigit_char c \<or> py_in [35] next1 \<or> py_in [27155] next1)
                then cons_ok (office_entry line next1 next2) (reformat rest)
                else cons_ok (floor_header line) (reformat (next1 # next2 # rest)))
      else cons_ok (floor_header line) (reformat (next1 # next2 # rest)))"
| "reformat (line # rest) = cons_ok (floor_header line) (reformat rest)"

definition clean_text_advanced :: "ustring \<Rightarrow> ustring \<Rightarrow> py_error + ustring" where
  "clean_text_advanced txt dept =
     (if txt = [] then Inr []
      else (case reformat (List.map_filter clean_line
                             (split_nl (dept_fixes dept (strip_enrichment txt)))) of
              Inl e \<Rightarrow> Inl e
            | Inr final_lines \<Rightarrow> Inr (strip_enrichment (join_nl final_lines))))"

section \<open>The retrieval engine\<close>

subsection \<open>The vector store\<close>

text \<open>
  The metadata of a chunk is a dictionary from keys to strings. A query to the
  collection gives three parallel lists or raises; every call the engine makes is
  appended to a log, so that the filters it sends can be stated. Distances are real
  numbers.
\<close>

type_synonym meta_dict = "(string \<times> ustring) list"

definition meta_get :: "meta_dict \<Rightarrow> string \<Rightarrow> ustring option" where
  "meta_get meta k = map_of meta k"

record query_result =
  documents :: "ustring list"
  metadatas :: "meta_dict list"
  distances :: "real list"

record query_call =
  query_text :: ustring
  n_results :: nat
  where_filter :: "(string \<times> ustring) list option"

type_synonym collection = "query_call \<Rightarrow> py_error + query_result"

type_synonym candidate = "ustring \<times> meta_dict \<times> real"

definition do_query ::
  "collection \<Rightarrow> query_call \<Rightarrow> query_call list \<Rightarrow> (py_error + query_result) \<times> query_call list" where
  "do_query coll c calls = (coll c, calls @ [c])"

text \<open>\<^verbatim>\<open>try: query(filtered) except Exception: query(unfiltered)\<close>\<close>

definition query_or_fallback ::
  "collection \<Rightarrow> query_call \<Rightarrow> query_call \<Rightarrow> query_call list \<Rightarrow>
   (py_error + query_result) \<times> query_call list" where
  "query_or_fallback coll c c' calls =
     (case do_query coll c calls of
        (Inr r, calls1) \<Rightarrow> (Inr r, calls1)
      | (Inl e, calls1) \<Rightarrow> do_query coll c' calls1)"

definition zip3 :: "query_result \<Rightarrow> candidate list" where
  "zip3 r = zip (documents r) (zip (metadatas r) (distances r))"

definition unzip3 :: "candidate list \<Rightarrow> query_result" where
  "unzip3 cs =
     \<lparr>documents = map fst cs, metadatas = map (fst \<circ> snd) cs, distances = map (snd \<circ> snd) cs\<rparr>"

subsection \<open>Unit names in a text\<close>

text \<open>
  \<^verbatim>\<open>_extract_unit_names\<close>: six patterns, each two to six (eight for the two-character
  suffix "centre") characters that are neither white space nor one of the four
  separators (comma, full-width comma, ideographic full stop, ideographic comma),
  followed by the suffix. The characters are matched greedily: the longest run is tried
  first and shortened one character at a time. \<^verbatim>\<open>re.findall\<close> scans from the left and
  goes on after each match.
\<close>

definition unit_char :: "nat \<Rightarrow> bool" where
  "unit_char c = (\<not> py_isspace c \<and> c \<notin> set [44, 65292, 12290, 12289])"

definition unit_patterns :: "(nat \<times> nat \<times> ustring) list" where
  "unit_patterns =
     [(2, 6, [32068]), (2, 6, [34389]), (2, 8, [20013, 24515]),
      (2, 6, [37096]), (2, 6, [23460]), (2, 6, [39208])]"

definition match_here :: "nat \<Rightarrow> nat \<Rightarrow> ustring \<Rightarrow> ustring \<Rightarrow> ustring option" where
  "match_here lo hi sfx s =
     (case filter (\<lambda>k. startswith (drop k s) sfx)
             (rev [lo ..< Suc (length (takeWhile unit_char (take hi s)))]) of
        [] \<Rightarrow> None
      | k # ks \<Rightarrow> Some (take (k + length sfx) s))"

fun findall :: "nat \<Rightarrow> nat \<Rightarrow> ustring \<Rightarrow> ustring \<Rightarrow> ustring list" where
  "findall lo hi sfx [] = []"
| "findall lo hi sfx (c # cs) =
     (case match_here lo hi sfx (c # cs) of
        Some m \<Rightarrow> m # findall lo hi sfx (drop (length m - 1) cs)
      | None \<Rightarrow> findall lo hi sfx cs)"

definition exclude_terms :: "ustring list" where
  "exclude_terms =
     [[26412, 32068], [35442, 32068], [21508, 32068], [20998, 32068], [23567, 32068],
      [26412, 37096], [35442, 37096], [26412, 34389], [35442, 34389],
      [26412, 20013, 24515], [36774, 20844, 23460], [26371, 35696, 23460]]"

definition verb_chars :: "nat list" where
  "verb_chars = [30001, 28858, 33267, 22312, 21521, 21040]"

definition keep_unit :: "ustring \<Rightarrow> bool" where
  "keep_unit m =
     (\<not> (m \<noteq> [] \<and> isdigit_char (hd m)) \<and> m \<notin> set exclude_terms \<and>
      \<not> list_ex (\<lambda>v. py_in [v] m) verb_chars)"

text \<open>
  A Python set is a list without repetitions; the order in which \<^verbatim>\<open>list(a_set)\<close>
  enumerates it is not fixed by the language and is the parameter \<open>order\<close>.
\<close>

definition extract_unit_names :: "(ustring list \<Rightarrow> ustring list) \<Rightarrow> ustring \<Rightarrow> ustring list" where
  "extract_unit_names order txt =
     order (foldl (\<lambda>units m. if keep_unit m then List.insert m units else units) []
              (map py_strip
                 (concat (map (\<lambda>(lo, hi, sfx). findall lo hi sfx txt) unit_patterns))))"

subsection \<open>Intent and reranking\<close>

definition location_keywords :: "ustring list" where
  "location_keywords =
     [[22312, 21738], [20301, 32622], [22320, 22336], [24590, 40636, 21435],
      [22914, 20309, 21040], ascii ''where'', ascii ''location'', [24190, 27155]]"

definition phone_keywords :: "ustring list" where
  "phone_keywords =
     [[38651, 35441], [20998, 27231], [32879, 32097, 26041, 24335], [32879, 32097],
      ascii ''tel'', ascii ''phone'']"

definition service_keywords :: "ustring list" where
  "service_keywords =
     [[26381, 21209], [26989, 21209], [32887, 25484], [36774, 29702], [30003, 35531],
      [27969, 31243], [35215, 23450], [35201, 20214]]"

definition is_location_query :: "(ustring \<Rightarrow> ustring) \<Rightarrow> ustring \<Rightarrow> bool" where
  "is_location_query lower query =
     list_ex (\<lambda>keyword. py_in keyword (lower query)) location_keywords"

definition get_query_intent :: "(ustring \<Rightarrow> ustring) \<Rightarrow> ustring \<Rightarrow> ustring" where
  "get_query_intent lower query =
     (if is_location_query lower query then ascii ''location''
      else if list_ex (\<lambda>keyword. py_in (lower keyword) (lower query)) phone_keywords
      then ascii ''phone''
      else if list_ex (\<lambda>keyword. py_in (lower keyword) (lower query)) service_keywords
      then ascii ''service''
      else ascii ''general'')"

definition apply_type_boost :: "meta_dict \<Rightarrow> real \<Rightarrow> ustring \<Rightarrow> real" where
  "apply_type_boost meta distance intent =
     (let chunk_type = (case meta_get meta ''type'' of Some t \<Rightarrow> t | None \<Rightarrow> ascii ''general'')
      in if intent = ascii ''location'' \<and> chunk_type = ascii ''location''
         then max 0 (distance - 0.2)
         else if intent = ascii ''phone'' \<and> chunk_type = ascii ''phone''
         then max 0 (distance - 0.15)
         else if intent = ascii ''service'' \<and> chunk_type = ascii ''service''
         then max 0 (distance - 0.1)
         else distance)"

definition boost_all :: "ustring \<Rightarrow> candidate list \<Rightarrow> candidate list" where
  "boost_all intent cands =
     map (\<lambda>(doc, meta, distance). (doc, meta, apply_type_boost meta distance intent)) cands"

definition by_distance :: "candidate \<Rightarrow> real" where
  "by_distance c = snd (snd c)"

text \<open>\<^verbatim>\<open>list.sort\<close> and \<^verbatim>\<open>sorted\<close> are stable, as \<open>sort_key\<close> is.\<close>

definition rerank_with_intent ::
  "ustring list \<Rightarrow> meta_dict list \<Rightarrow> real list \<Rightarrow> ustring \<Rightarrow> nat \<Rightarrow> query_result" where
  "rerank_with_intent docs metas dists intent top_k =
     (if docs = [] then \<lparr>documents = [], metadatas = [], distances = []\<rparr>
      else unzip3 (take top_k (sort_key by_distance
                                 (boost_all intent (zip docs (zip metas dists))))))"

subsection \<open>The stages\<close>

definition retrieve_stage1 ::
  "collection \<Rightarrow> ustring \<Rightarrow> nat \<Rightarrow> query_call list \<Rightarrow> (py_error + query_result) \<times> query_call list" where
  "retrieve_stage1 coll query n calls =
     do_query coll \<lparr>query_text = query, n_results = n, where_filter = None\<rparr> calls"

definition retrieve_with_priority ::
  "collection \<Rightarrow> ustring \<Rightarrow> ustring \<Rightarrow> query_call list \<Rightarrow>
   (py_error + query_result) \<times> query_call list" where
  "retrieve_with_priority coll query intent calls =
     (case do_query coll \<lparr>query_text = query, n_results = 15, where_filter = None\<rparr> calls of
        (Inl e, calls1) \<Rightarrow> (Inl e, calls1)
      | (Inr r, calls1) \<Rightarrow>
          (Inr (rerank_with_intent (documents r) (metadatas r) (distances r) intent 5), calls1))"

text \<open>
  Stage 2 keeps the candidates (the three lists of the source grow together and are
  zipped at the end) and the set of the identifiers seen: URL, title and the first 80
  characters of the text, joined by underscores (code point 95).
\<close>

definition doc_id :: "meta_dict \<Rightarrow> ustring \<Rightarrow> ustring" where
  "doc_id meta doc =
     (case meta_get meta ''url'' of Some u \<Rightarrow> u | None \<Rightarrow> []) @ [95] @
     (case meta_get meta ''title'' of Some t \<Rightarrow> t | None \<Rightarrow> []) @ [95] @ take 80 doc"

definition merge_result :: "candidate list \<times> ustring list \<Rightarrow> candidate \<Rightarrow> candidate list \<times> ustring list" where
  "merge_result st c =
     (if doc_id (fst (snd c)) (fst c) \<notin> set (snd st)
      then (fst st @ [c], doc_id (fst (snd c)) (fst c) # snd st)
      else st)"

fun stage2_by_ids ::
  "collection \<Rightarrow> ustring \<Rightarrow> nat \<Rightarrow> ustring list \<Rightarrow> candidate list \<times> ustring list \<Rightarrow>
   query_call list \<Rightarrow> (py_error + candidate list \<times> ustring list) \<times> query_call list" where
  "stage2_by_ids coll query n [] st calls = (Inr st, calls)"
| "stage2_by_ids coll query n (unit_id # rest) st calls =
     (case query_or_fallback coll
             \<lparr>query_text = query, n_results = n, where_filter = Some [(''unit_id'', unit_id)]\<rparr>
             \<lparr>query_text = query, n_results = n, where_filter = None\<rparr> calls of
        (Inl e, calls1) \<Rightarrow> (Inl e, calls1)
      | (Inr r, calls1) \<Rightarrow>
          stage2_by_ids coll query n rest (foldl merge_result st (zip3 r)) calls1)"

fun stage2_by_names ::
  "collection \<Rightarrow> ustring \<Rightarrow> nat \<Rightarrow> ustring list \<Rightarrow> candidate list \<times> ustring list \<Rightarrow>
   query_call list \<Rightarrow> (py_error + candidate list \<times> ustring list) \<times> query_call list" where
  "stage2_by_names coll query n [] st calls = (Inr st, calls)"
| "stage2_by_names coll query n (unit_name # rest) st calls =
     (case do_query coll
             \<lparr>query_text = unit_name @ [32] @ query, n_results = n, where_filter = None\<rparr> calls of
        (Inl e, calls1) \<Rightarrow> (Inl e, calls1)
      | (Inr r, calls1) \<Rightarrow>
          stage2_by_names coll query n rest (foldl merge_result st (zip3 r)) calls1)"

definition retrieve_stage2 ::
  "collection \<Rightarrow> ustring list \<Rightarrow> ustring list \<Rightarrow> ustring \<Rightarrow> nat \<Rightarrow> query_call list \<Rightarrow>
   (py_error + query_result) \<times> query_call list" where
  "retrieve_stage2 coll unit_names unit_ids query n calls =
     (case stage2_by_ids coll query n unit_ids ([], []) calls of
        (Inl e, calls1) \<Rightarrow> (Inl e, calls1)
      | (Inr st, calls1) \<Rightarrow>
          (case (if fst st = [] \<and> unit_names \<noteq> []
                 then stage2_by_names coll query n unit_names st calls1
                 else (Inr st, calls1)) of
             (Inl e, calls2) \<Rightarrow> (Inl e, calls2)
           | (Inr st2, calls2) \<Rightarrow>
               (Inr (unzip3 (take n (sort_key by_distance (fst st2)))), calls2)))"

text \<open>
  The augmentation keeps the three lists and the set of the first 100 characters of the
  texts present. A chunk is appended when its type is location and its first 100
  characters are not in that set.
\<close>

record augment_state =
  st_docs :: "ustring list"
  st_metas :: "meta_dict list"
  st_dists :: "real list"
  st_seen :: "ustring list"

definition append_location :: "augment_state \<Rightarrow> candidate \<Rightarrow> augment_state" where
  "append_location st c =
     (if meta_get (fst (snd c)) ''type'' = Some (ascii ''location'')
      then (if take 100 (fst c) \<in> set (st_seen st) then st
            else \<lparr>st_docs = st_docs st @ [fst c], st_metas = st_metas st @ [fst (snd c)],
                  st_dists = st_dists st @ [snd (snd c)], st_seen = take 100 (fst c) # st_seen st\<rparr>)
      else st)"

fun append_by_ids ::
  "collection \<Rightarrow> nat \<Rightarrow> ustring list \<Rightarrow> augment_state \<Rightarrow> query_call list \<Rightarrow>
   (py_error + augment_state) \<times> query_call list" where
  "append_by_ids coll max_per_unit [] st calls = (Inr st, calls)"
| "append_by_ids coll max_per_unit (unit_id # rest) st calls =
     (case query_or_fallback coll
             \<lparr>query_text = unit_id, n_results = max_per_unit,
               where_filter = Some [(''unit_id'', unit_id), (''type'', ascii ''location'')]\<rparr>
             \<lparr>query_text = unit_id, n_results = max_per_unit, where_filter = None\<rparr> calls of
        (Inl e, calls1) \<Rightarrow> (Inl e, calls1)
      | (Inr r, calls1) \<Rightarrow>
          append_by_ids coll max_per_unit rest (foldl append_location st (zip3 r)) calls1)"

fun append_by_names ::
  "collection \<Rightarrow> nat \<Rightarrow> ustring list \<Rightarrow> augment_state \<Rightarrow> query_call list \<Rightarrow>
   (py_error + augment_state) \<times> query_call list" where
  "append_by_names coll max_per_unit [] st calls = (Inr st, calls)"
| "append_by_names coll max_per_unit (unit_name # rest) st calls =
     (case do_query coll
             \<lparr>query_text = unit_name, n_results = max_per_unit, where_filter = None\<rparr> calls of
        (Inl e, calls1) \<Rightarrow> (Inl e, calls1)
      | (Inr r, calls1) \<Rightarrow>
          append_by_names coll max_per_unit rest (foldl append_location st (zip3 r)) calls1)"

definition append_location_chunks ::
  "collection \<Rightarrow> query_result \<Rightarrow> ustring list \<Rightarrow> ustring list \<Rightarrow> nat \<Rightarrow> query_call list \<Rightarrow>
   (py_error + query_result) \<times> query_call list" where
  "append_location_chunks coll results unit_ids unit_names max_per_unit calls =
     (case append_by_ids coll max_per_unit unit_ids
             \<lparr>st_docs = documents results, st_metas = metadatas results, st_dists = distances results,
               st_seen = map (take 100) (documents results)\<rparr> calls of
        (Inl e, calls1) \<Rightarrow> (Inl e, calls1)
      | (Inr st, calls1) \<Rightarrow>
          (case (if unit_ids = []
                 then append_by_names coll max_per_unit unit_names st calls1
                 else (Inr st, calls1)) of
             (Inl e, calls2) \<Rightarrow> (Inl e, calls2)
           | (Inr st2, calls2) \<Rightarrow>
               (Inr \<lparr>documents = st_docs st2, metadatas = st_metas st2, distances = st_dists st2\<rparr>,
                calls2)))"

subsection \<open>The main entry\<close>

text \<open>
  The unit identifiers of the Stage-1 metadata are kept when they are not empty, shorter
  than 50 characters and free of line feeds.
\<close>

definition valid_unit_id :: "ustring \<Rightarrow> bool" where
  "valid_unit_id unit_id = (unit_id \<noteq> [] \<and> length unit_id < 50 \<and> 10 \<notin> set unit_id)"

definition add_meta_units :: "ustring list \<times> ustring list \<Rightarrow> meta_dict \<Rightarrow> ustring list \<times> ustring list" where
  "add_meta_units st meta =
     ((case meta_get meta ''unit_name'' of
         Some unit_name \<Rightarrow> if unit_name \<noteq> [] then List.insert unit_name (fst st) else fst st
       | None \<Rightarrow> fst st),
      (case meta_get meta ''unit_id'' of
         Some unit_id \<Rightarrow> if valid_unit_id unit_id then List.insert unit_id (snd st) else snd st
       | None \<Rightarrow> snd st))"

text \<open>The pair of the sets \<^verbatim>\<open>unit_names\<close> and \<^verbatim>\<open>unit_ids\<close> after the two loops.\<close>

definition resolve_units ::
  "(ustring list \<Rightarrow> ustring list) \<Rightarrow> query_result \<Rightarrow> ustring list \<times> ustring list" where
  "resolve_units order stage1 =
     foldl add_meta_units
       (foldl (\<lambda>names doc. foldl (\<lambda>ns u. List.insert u ns) names (extract_unit_names order doc))
          [] (documents stage1), [])
       (metadatas stage1)"

definition retrieve ::
  "(ustring \<Rightarrow> ustring) \<Rightarrow> (ustring list \<Rightarrow> ustring list) \<Rightarrow> collection \<Rightarrow> ustring \<Rightarrow> bool \<Rightarrow>
   query_call list \<Rightarrow> (py_error + query_result) \<times> query_call list" where
  "retrieve lower order coll query use_two_stage calls =
     (if \<not> use_two_stage
      then retrieve_with_priority coll query (get_query_intent lower query) calls
      else (case retrieve_stage1 coll query 5 calls of
              (Inl e, calls1) \<Rightarrow> (Inl e, calls1)
            | (Inr stage1, calls1) \<Rightarrow>
                (if fst (resolve_units order stage1) = [] \<and> snd (resolve_units order stage1) = []
                 then retrieve_with_priority coll query (get_query_intent lower query) calls1
                 else (case retrieve_stage2 coll (order (fst (resolve_units order stage1)))
                               (order (snd (resolve_units order stage1))) query 10 calls1 of
                         (Inl e, calls2) \<Rightarrow> (Inl e, calls2)
                       | (Inr stage2, calls2) \<Rightarrow>
                           append_location_chunks coll
                             (rerank_with_intent (documents stage2) (metadatas stage2)
                                (distances stage2) (get_query_intent lower query) 5)
                             (order (snd (resolve_units order stage1)))
                             (order (fst (resolve_units order stage1))) 2 calls2))))"

subsection \<open>A model of the store\<close>

text \<open>
  Modelled from the spec: the vector-store collaborator, which is not part of the
  repository. It holds chunks; \<open>query(text, topN, filter)\<close> answers with the \<open>topN\<close>
  chunks nearest to the text among those that satisfy the filter, a conjunction of
  exact-match equalities on the metadata, nearest first. The distance between a text and
  a chunk (the embedding) is a parameter.
\<close>

definition matches_where :: "(string \<times> ustring) list option \<Rightarrow> meta_dict \<Rightarrow> bool" where
  "matches_where w meta =
     (case w of None \<Rightarrow> True
      | Some conds \<Rightarrow> list_all (\<lambda>(k, v). meta_get meta k = Some v) conds)"

definition store_hits :: "(ustring \<Rightarrow> chunk \<Rightarrow> real) \<Rightarrow> chunk list \<Rightarrow> query_call \<Rightarrow> chunk list" where
  "store_hits distance store c =
     take (n_results c)
       (sort_key (distance (query_text c))
          (filter (\<lambda>ch. matches_where (where_filter c) (metadata ch)) store))"

definition store_query :: "(ustring \<Rightarrow> chunk \<Rightarrow> real) \<Rightarrow> chunk list \<Rightarrow> collection" where
  "store_query distance store c =
     Inr \<lparr>documents = map chunk_text (store_hits distance store c),
          metadatas = map metadata (store_hits distance store c),
          distances = map (distance (query_text c)) (store_hits distance store c)\<rparr>"

subsection \<open>The reranking rule in the words of the specification\<close>

text \<open>
  A candidate whose chunk type is the intent gets its distance less the discount of the
  intent (0.2 for location, 0.15 for phone, 0.1 for service), but not less than 0; every
  other candidate keeps its distance. A chunk without a type counts as general.
\<close>

definition chunk_type :: "meta_dict \<Rightarrow> ustring" where
  "chunk_type meta = (case meta_get meta ''type'' of Some t \<Rightarrow> t | None \<Rightarrow> ascii ''general'')"



subsection \<open>Notions used to state the properties of a retrieval\<close>

text \<open>
  The candidates the collection can answer with; the fingerprint of a candidate (URL,
  title and the first 80 characters of its text) and the identifier Stage 2 builds from
  it; whether a chunk is a location chunk, and of which unit.
\<close>

definition answers :: "collection \<Rightarrow> candidate set" where
  "answers coll = {e. \<exists>c r. coll c = Inr r \<and> e \<in> set (zip3 r)}"

definition fingerprint :: "candidate \<Rightarrow> ustring \<times> ustring \<times> ustring" where
  "fingerprint c =
     ((case meta_get (fst (snd c)) ''url'' of Some u \<Rightarrow> u | None \<Rightarrow> []),
      (case meta_get (fst (snd c)) ''title'' of Some t \<Rightarrow> t | None \<Rightarrow> []),
      take 80 (fst c))"

definition cand_id :: "candidate \<Rightarrow> ustring" where
  "cand_id c = doc_id (fst (snd c)) (fst c)"

definition is_location :: "meta_dict \<Rightarrow> bool" where
  "is_location meta = (meta_get meta ''type'' = Some (ascii ''location''))"

definition is_location_of :: "ustring \<Rightarrow> meta_dict \<Rightarrow> bool" where
  "is_location_of unit_id meta =
     (meta_get meta ''unit_id'' = Some unit_id \<and> is_location meta)"


section \<open>Evaluation on concrete strings\<close>

lemmas space_eval = py_strip_def py_isspace_def in_ranges_def space_ranges_def
lemmas digit_eval = re_digit_def in_ranges_def decimal_ranges_def
lemmas office_eval = ascii_def space_eval digit_eval startswith_def floor_token_def
  floor_match_def room_token_def paren_tail_def office_match_def Let_def

section \<open>Normalisation of unit names\<close>

lemma ascii_lower_idem: "ascii_lower (ascii_lower s) = ascii_lower s"
  by (induction s) (auto simp: ascii_lower_def)

lemma stripped_not_upper: "65 \<le> c \<Longrightarrow> c \<le> 90 \<Longrightarrow> \<not> unit_id_stripped (c + 32)"
  by (auto simp: unit_id_stripped_def unit_id_punct_def py_isspace_def in_ranges_def space_ranges_def)

lemma ascii_lower_keeps:
  "list_all (\<lambda>c. \<not> unit_id_stripped c) s \<Longrightarrow> list_all (\<lambda>c. \<not> unit_id_stripped c) (ascii_lower s)"
  by (induction s) (auto simp: ascii_lower_def stripped_not_upper)

lemma filter_not_stripped_all: "list_all (\<lambda>c. \<not> unit_id_stripped c) (filter (\<lambda>c. \<not> unit_id_stripped c) s)"
  by (simp add: list_all_iff)

lemma normalize_idem_aux:
  assumes idem: "\<And>s. lower (lower s) = lower s"
    and keep: "\<And>s. list_all (\<lambda>c. \<not> unit_id_stripped c) s \<Longrightarrow>
                 list_all (\<lambda>c. \<not> unit_id_stripped c) (lower s)"
  shows "normalize_unit_id lower (normalize_unit_id lower s) = normalize_unit_id lower s"
proof (cases "s = []")
  case True
  then show ?thesis by (simp add: normalize_unit_id_def)
next
  case False
  let ?t = "lower (filter (\<lambda>c. \<not> unit_id_stripped c) s)"
  have t: "normalize_unit_id lower s = ?t" using False by (simp add: normalize_unit_id_def)
  have "list_all (\<lambda>c. \<not> unit_id_stripped c) ?t"
    by (rule keep) (rule filter_not_stripped_all)
  then have f: "filter (\<lambda>c. \<not> unit_id_stripped c) ?t = ?t"
    unfolding list_all_iff by (rule filter_True)
  show ?thesis
  proof (cases "?t = []")
    case True
    then show ?thesis by (simp add: t normalize_unit_id_def)
  next
    case False
    then have "normalize_unit_id lower ?t = lower ?t"
      by (simp add: normalize_unit_id_def f)
    then show ?thesis by (simp add: t idem)
  qed
qed


text \<open>
  Claim C10. Normalising twice is normalising once, and so the \<^verbatim>\<open>unit_id\<close> that
  \<^verbatim>\<open>_create_location_chunks\<close> writes into the metadata of every chunk is a fixed point of
  the normalisation. Two facts about \<^verbatim>\<open>str.lower\<close> are used: lowering twice is lowering
  once, and lowering a string without characters of the deleted class gives a string
  without them.
\<close>

theorem normalize_unit_id_idempotent:
  assumes idem: "\<And>s. lower (lower s) = lower s"
    and keep: "\<And>s. list_all (\<lambda>c. \<not> unit_id_stripped c) s \<Longrightarrow>
                 list_all (\<lambda>c. \<not> unit_id_stripped c) (lower s)"
  shows "normalize_unit_id lower (normalize_unit_id lower s) = normalize_unit_id lower s \<and>
         list_all (\<lambda>c. \<exists>u. map_of (metadata c) ''unit_id'' = Some u \<and> normalize_unit_id lower u = u)
           (create_location_chunks lower offices source_url department)"
  using normalize_idem_aux [OF idem keep]
  by (simp add: create_location_chunks_def list_all_iff)

theorem normalize_unit_id_idempotent_witness:
  "normalize_unit_id ascii_lower (normalize_unit_id ascii_lower (ascii ''Room (A-1)'')) = ascii ''rooma1'' \<and>
   normalize_unit_id ascii_lower (ascii ''Room (A-1)'') = ascii ''rooma1''"
  using normalize_unit_id_idempotent [of ascii_lower "ascii ''Room (A-1)''" "[]" "[]" "[]", OF ascii_lower_idem ascii_lower_keeps]
  by (simp add: normalize_unit_id_def ascii_lower_def ascii_def unit_id_stripped_def unit_id_punct_def
      py_isspace_def in_ranges_def space_ranges_def)










section \<open>The office-location extractor\<close>

lemma floor_token_nonempty: "floor_token s = Some t \<Longrightarrow> t \<noteq> []"
  by (auto simp: floor_token_def split: if_splits)

lemma floor_match_nonempty: "floor_match l = Some t \<Longrightarrow> t \<noteq> []"
  by (auto simp: floor_match_def split: if_splits option.splits dest: floor_token_nonempty)

lemma cfa_Nil: "current_floor_after cur [] = cur"
  by (simp add: current_floor_after_def List.map_filter_simps)

lemma cfa_Cons:
  "current_floor_after cur (l # ls) =
     (case floor_match (py_strip l) of Some t \<Rightarrow> current_floor_after t ls
      | None \<Rightarrow> current_floor_after cur ls)"
  by (simp add: current_floor_after_def List.map_filter_simps split: option.splits)

lemma extract_lines_append:
  "extract_lines b cur (xs @ ys) =
     extract_lines b cur xs @ extract_lines b (current_floor_after cur xs) ys"
proof (induction xs arbitrary: cur)
  case Nil
  show ?case by (simp add: cfa_Nil)
next
  case (Cons l xs)
  show ?case
    by (simp add: Cons.IH cfa_Cons Let_def split: option.splits)
qed

lemma extract_lines_mem:
  "r \<in> set (extract_lines b cur ls) \<Longrightarrow>
   \<exists>xs l ys rm nm en. ls = xs @ l # ys \<and> floor_match (py_strip l) = None \<and>
      office_match (py_strip l) = Some (rm, nm, en) \<and> current_floor_after cur xs \<noteq> [] \<and>
      r = \<lparr>building = b, floor_name = current_floor_after cur xs, room = rm,
           name_zh = py_strip nm, name_en = (case en of Some e \<Rightarrow> py_strip e | None \<Rightarrow> [])\<rparr>"
proof (induction ls arbitrary: cur)
  case Nil
  then show ?case by simp
next
  case (Cons l ls)
  show ?case
  proof (cases "floor_match (py_strip l)")
    case (Some t)
    with Cons.prems have "r \<in> set (extract_lines b t ls)" by (simp add: Let_def)
    from Cons.IH [OF this] obtain xs l' ys rm nm en where
      h: "ls = xs @ l' # ys" "floor_match (py_strip l') = None"
         "office_match (py_strip l') = Some (rm, nm, en)" "current_floor_after t xs \<noteq> []"
         "r = \<lparr>building = b, floor_name = current_floor_after t xs, room = rm,
           name_zh = py_strip nm, name_en = (case en of Some e \<Rightarrow> py_strip e | None \<Rightarrow> [])\<rparr>"
      by blast
    have "current_floor_after cur (l # xs) = current_floor_after t xs"
      by (simp add: cfa_Cons Some)
    with h show ?thesis
      by (intro exI [of _ "l # xs"] exI [of _ l'] exI [of _ ys] exI [of _ rm] exI [of _ nm] exI [of _ en]) simp
  next
    case None
    note fm = None
    have c: "\<And>xs. current_floor_after cur (l # xs) = current_floor_after cur xs"
      by (simp add: cfa_Cons fm)
    have tail: ?thesis if "r \<in> set (extract_lines b cur ls)"
    proof -
      from Cons.IH [OF that] obtain xs l' ys rm nm en where
        h: "ls = xs @ l' # ys" "floor_match (py_strip l') = None"
           "office_match (py_strip l') = Some (rm, nm, en)" "current_floor_after cur xs \<noteq> []"
           "r = \<lparr>building = b, floor_name = current_floor_after cur xs, room = rm,
             name_zh = py_strip nm, name_en = (case en of Some e \<Rightarrow> py_strip e | None \<Rightarrow> [])\<rparr>"
        by blast
      then show ?thesis using c
        by (intro exI [of _ "l # xs"] exI [of _ l'] exI [of _ ys] exI [of _ rm] exI [of _ nm] exI [of _ en]) simp
    qed
    show ?thesis
    proof (cases "office_match (py_strip l)")
      case None
      with fm Cons.prems have "r \<in> set (extract_lines b cur ls)" by (simp add: Let_def)
      then show ?thesis by (rule tail)
    next
      case (Some m)
      obtain rm nm en where m: "m = (rm, nm, en)" by (cases m) auto
      show ?thesis
      proof (cases "cur = []")
        case True
        with fm Some m Cons.prems have "r \<in> set (extract_lines b cur ls)" by (simp add: Let_def)
        then show ?thesis by (rule tail)
      next
        case False
        with fm Some m Cons.prems have
          "r = \<lparr>building = b, floor_name = cur, room = rm,
             name_zh = py_strip nm, name_en = (case en of Some e \<Rightarrow> py_strip e | None \<Rightarrow> [])\<rparr>
           \<or> r \<in> set (extract_lines b cur ls)" by (simp add: Let_def)
        then show ?thesis
        proof
          assume "r \<in> set (extract_lines b cur ls)"
          then show ?thesis by (rule tail)
        next
          assume "r = \<lparr>building = b, floor_name = cur, room = rm,
             name_zh = py_strip nm, name_en = (case en of Some e \<Rightarrow> py_strip e | None \<Rightarrow> [])\<rparr>"
          with fm Some m False show ?thesis
            by (intro exI [of _ "[]"] exI [of _ l] exI [of _ ls] exI [of _ rm] exI [of _ nm] exI [of _ en])
               (simp add: cfa_Nil)
        qed
      qed
    qed
  qed
qed

lemma extract_lines_no_header:
  "\<forall>l \<in> set xs. floor_match (py_strip l) = None \<Longrightarrow> extract_lines b [] xs = []"
  by (induction xs) (auto simp: Let_def split: option.splits)

lemma cfa_no_header:
  "\<forall>l \<in> set xs. floor_match (py_strip l) = None \<Longrightarrow> current_floor_after cur xs = cur"
  by (induction xs) (auto simp: cfa_Nil cfa_Cons)

lemma extract_lines_length: "length (extract_lines b cur ls) \<le> length ls"
  by (induction ls arbitrary: cur) (auto simp: Let_def le_SucI split: option.splits)

lemma extract_lines_skip:
  assumes "floor_match (py_strip l) = None" "office_match (py_strip l) = None"
  shows "extract_lines b cur (xs @ l # ys) = extract_lines b cur (xs @ ys)"
  using assms by (simp add: extract_lines_append Let_def)

lemma cfa_append:
  "current_floor_after cur (xs @ ys) = current_floor_after (current_floor_after cur xs) ys"
  by (induction xs arbitrary: cur) (simp_all add: cfa_Nil cfa_Cons split: option.splits)

lemma cfa_last_header:
  assumes "floor_match (py_strip h) = Some t" "\<forall>l \<in> set zs. floor_match (py_strip l) = None"
  shows "current_floor_after cur (ws @ h # zs) = t"
  using assms by (simp add: cfa_append cfa_Cons cfa_no_header)

lemma extract_lines_before_header:
  assumes "\<forall>l \<in> set xs. floor_match (py_strip l) = None"
  shows "extract_lines b [] (xs @ ys) = extract_lines b [] ys"
  using assms by (simp add: extract_lines_append extract_lines_no_header cfa_no_header)

lemma scenario_floor: "floor_match (py_strip scenario_floor_line) = Some [49, 27155]"
  by (simp add: scenario_floor_line_def office_eval)

lemma scenario_office_no_floor: "floor_match (py_strip scenario_office_line) = None"
  by (simp add: scenario_office_line_def office_eval)

lemma scenario_office:
  "office_match (py_strip scenario_office_line) =
     Some (ascii ''106'', [35387, 20874, 32068], Some (ascii ''Registrar''))"
  by (simp add: scenario_office_line_def office_eval)

lemma scenario_names:
  "py_strip [35387, 20874, 32068] = [35387, 20874, 32068]"
  "py_strip (ascii ''Registrar'') = ascii ''Registrar''"
  by (simp_all add: ascii_def space_eval)

lemma scenario_split:
  "split_nl (scenario_floor_line @ [10] @ scenario_office_line) =
     [scenario_floor_line, scenario_office_line]"
  by (simp add: scenario_floor_line_def scenario_office_line_def ascii_def)

text \<open>
  Claim C6 (scenario A). Whatever the building name, a text in which the line
  \<^verbatim>\<open>## 1\<close> followed by the floor character is followed by the line
  \<^verbatim>\<open>- 106 NAME (Registrar)\<close>, NAME being U+8A3B U+518A U+7D44, yields the office record
  with that building, floor 1, room 106, Chinese name NAME and English name Registrar.
\<close>

theorem scenario_a:
  assumes "split_nl content = xs @ [scenario_floor_line, scenario_office_line] @ ys"
  shows "\<lparr>building = b, floor_name = [49, 27155], room = ascii ''106'',
          name_zh = [35387, 20874, 32068], name_en = ascii ''Registrar''\<rparr>
         \<in> set (extract_office_locations content b)"
proof -
  have "extract_lines b cur (scenario_floor_line # scenario_office_line # ys) =
          \<lparr>building = b, floor_name = [49, 27155], room = ascii ''106'',
            name_zh = [35387, 20874, 32068], name_en = ascii ''Registrar''\<rparr>
          # extract_lines b [49, 27155] ys" for cur
    by (simp add: scenario_floor scenario_office_no_floor scenario_office scenario_names)
  with assms show ?thesis
    by (simp add: extract_office_locations_def extract_lines_append)
qed

theorem scenario_a_witness:
  "\<lparr>building = [34892, 25919, 22823, 27155], floor_name = [49, 27155], room = ascii ''106'',
     name_zh = [35387, 20874, 32068], name_en = ascii ''Registrar''\<rparr>
   \<in> set (extract_office_locations (scenario_floor_line @ [10] @ scenario_office_line)
            [34892, 25919, 22823, 27155])"
  using scenario_a [of "scenario_floor_line @ [10] @ scenario_office_line" "[]" "[]"]
    scenario_split
  by simp

text \<open>
  Claim C7. The extractor is a total function of the text: the loop runs once over the
  lines, has no failing step and emits at most one record for each line. Every record
  it emits comes from an office-entry line and carries a non-empty floor, the floor in
  force after the lines before it, which is the token of the last floor header among
  them. Lines before the first floor header emit nothing, and a line that matches
  neither pattern can be removed without changing the result.
\<close>

theorem extract_office_locations_floor_state:
  "length (extract_office_locations content b) \<le> length (split_nl content) \<and>
   (\<forall>r \<in> set (extract_office_locations content b).
      floor_name r \<noteq> [] \<and> building r = b \<and>
      (\<exists>xs l ys rm nm en. split_nl content = xs @ l # ys \<and>
         floor_match (py_strip l) = None \<and> office_match (py_strip l) = Some (rm, nm, en) \<and>
         floor_name r = current_floor_after [] xs \<and> room r = rm \<and> name_zh r = py_strip nm)) \<and>
   (floor_match (py_strip h) = Some t \<and> (\<forall>l \<in> set zs. floor_match (py_strip l) = None) \<longrightarrow>
      current_floor_after cur (ws @ h # zs) = t \<and> t \<noteq> []) \<and>
   ((\<forall>l \<in> set xs. floor_match (py_strip l) = None) \<longrightarrow>
      extract_lines b [] (xs @ ys) = extract_lines b [] ys) \<and>
   (floor_match (py_strip l) = None \<and> office_match (py_strip l) = None \<longrightarrow>
      extract_lines b cur (xs @ l # ys) = extract_lines b cur (xs @ ys))"
proof (intro conjI ballI impI)
  show "length (extract_office_locations content b) \<le> length (split_nl content)"
    by (simp add: extract_office_locations_def extract_lines_length)
next
  fix r assume r: "r \<in> set (extract_office_locations content b)"
  then have "r \<in> set (extract_lines b [] (split_nl content))"
    by (simp add: extract_office_locations_def)
  from extract_lines_mem [OF this] obtain xs l ys rm nm en where
    h: "split_nl content = xs @ l # ys" "floor_match (py_strip l) = None"
       "office_match (py_strip l) = Some (rm, nm, en)" "current_floor_after [] xs \<noteq> []"
       "r = \<lparr>building = b, floor_name = current_floor_after [] xs, room = rm,
           name_zh = py_strip nm, name_en = (case en of Some e \<Rightarrow> py_strip e | None \<Rightarrow> [])\<rparr>"
    by blast
  from h show "floor_name r \<noteq> []" by simp
  from h show "building r = b" by simp
  from h show "\<exists>xs l ys rm nm en. split_nl content = xs @ l # ys \<and>
         floor_match (py_strip l) = None \<and> office_match (py_strip l) = Some (rm, nm, en) \<and>
         floor_name r = current_floor_after [] xs \<and> room r = rm \<and> name_zh r = py_strip nm"
    by (intro exI [of _ xs] exI [of _ l] exI [of _ ys] exI [of _ rm] exI [of _ nm] exI [of _ en])
       simp
next
  assume "floor_match (py_strip h) = Some t \<and> (\<forall>l \<in> set zs. floor_match (py_strip l) = None)"
  then show "current_floor_after cur (ws @ h # zs) = t" "t \<noteq> []"
    by (auto simp: cfa_last_header dest: floor_match_nonempty)
next
  assume "\<forall>l \<in> set xs. floor_match (py_strip l) = None"
  then show "extract_lines b [] (xs @ ys) = extract_lines b [] ys"
    by (rule extract_lines_before_header)
next
  assume "floor_match (py_strip l) = None \<and> office_match (py_strip l) = None"
  then show "extract_lines b cur (xs @ l # ys) = extract_lines b cur (xs @ ys)"
    by (simp add: extract_lines_skip)
qed

lemma plain_line_unmatched:
  "floor_match (py_strip (ascii ''Office hours'')) = None"
  "office_match (py_strip (ascii ''Office hours'')) = None"
  by (simp_all add: office_eval)

theorem extract_office_locations_floor_state_witness:
  "extract_lines [] [] ([scenario_office_line] @ [scenario_floor_line]) =
     extract_lines [] [] [scenario_floor_line] \<and>
   extract_lines [] [] ([scenario_office_line] @ ascii ''Office hours'' # [scenario_floor_line]) =
     extract_lines [] [] ([scenario_office_line] @ [scenario_floor_line]) \<and>
   current_floor_after [] ([] @ scenario_floor_line # [scenario_office_line]) = [49, 27155]"
  using extract_office_locations_floor_state
    [where content = "[]" and b = "[]" and h = scenario_floor_line and t = "[49, 27155]"
       and zs = "[scenario_office_line]" and cur = "[]" and ws = "[]"
       and xs = "[scenario_office_line]" and ys = "[scenario_floor_line]"
       and l = "ascii ''Office hours''"]
    scenario_floor scenario_office_no_floor plain_line_unmatched
  by simp

section \<open>Text cleaning\<close>

lemmas clean_eval = ascii_def space_eval startswith_def strip_enrichment_def
  enrichment_marker_def dept_fixes_def admin_footer_def clean_line_def noise_patterns_def
  py_lstrip_def is_room_def floor_header_def office_entry_def cons_ok_def py_isdigit_def
  isdigit_char_def digit_ranges_def List.map_filter_simps Let_def clean_text_advanced_def

text \<open>
  Claim C1 asks that cleaning a cleaned text changes nothing. The code does not do that.
  A line \<^verbatim>\<open>## ## a\<close> loses its first heading mark only, since \<^verbatim>\<open>lstrip\<close> stops at the
  space, so that the cleaned text \<^verbatim>\<open>## a\<close> is cleaned to \<^verbatim>\<open>a\<close>; and \<^verbatim>\<open>## ## a\<close> is itself
  the result of cleaning \<^verbatim>\<open>## ## ## a\<close>, so the failure is there for already-cleaned texts
  too. A line that holds heading marks only becomes an empty line, after the test that
  drops empty lines: the empty line is in the result and is dropped by the next cleaning.
  A three-line office entry whose result is shorter than ten characters and holds the
  floor character is made a floor header by the next cleaning.
\<close>

theorem clean_text_advanced_not_idempotent:
  "clean_text_advanced (ascii ''## ## ## a'') [] = Inr (ascii ''## ## a'') \<and>
   clean_text_advanced (ascii ''## ## a'') [] = Inr (ascii ''## a'') \<and>
   clean_text_advanced (ascii ''## a'') [] = Inr (ascii ''a'') \<and>
   clean_text_advanced (ascii ''a'' @ [10] @ ascii ''##'' @ [10] @ ascii ''b'') [] =
     Inr (ascii ''a'' @ [10, 10] @ ascii ''b'') \<and>
   clean_text_advanced (ascii ''a'' @ [10, 10] @ ascii ''b'') [] =
     Inr (ascii ''a'' @ [10] @ ascii ''b'') \<and>
   clean_text_advanced (ascii ''1'' @ [10] @ ascii ''A'' @ [10, 27155]) [] =
     Inr (ascii ''- 1 A ('' @ [27155, 41]) \<and>
   clean_text_advanced (ascii ''- 1 A ('' @ [27155, 41]) [] =
     Inr (ascii ''## - 1 A ('' @ [27155, 41])"
  by (simp add: clean_eval)

text \<open>
  The cleaner is not total either: a room number followed by a line of heading marks
  reads the first character of an empty string.
\<close>

lemma clean_text_advanced_raises:
  "clean_text_advanced (ascii ''101'' @ [10] @ ascii ''##'' @ [10] @ ascii ''b'') [] =
     Inl IndexError"
  by (simp add: clean_eval)

text \<open>A regular admin entry is put on one line and is then stable.\<close>

lemma clean_text_advanced_entry:
  "clean_text_advanced (ascii ''106'' @ [10, 35387, 20874, 32068, 10] @ ascii ''Registrar'')
     (ascii ''admin'') = Inr scenario_office_line \<and>
   clean_text_advanced scenario_office_line (ascii ''admin'') = Inr scenario_office_line"
  by (simp add: clean_eval scenario_office_line_def)

section \<open>Reranking\<close>













section \<open>Loop invariants of the retrieval engine\<close>

lemma foldl_inv:
  assumes "\<And>st c. P st \<Longrightarrow> c \<in> set cs \<Longrightarrow> P (f st c)" "P st"
  shows "P (foldl f st cs)"
  using assms by (induction cs arbitrary: st) auto

lemma do_query_answers:
  "do_query coll c calls = (Inr r, calls') \<Longrightarrow> set (zip3 r) \<subseteq> answers coll"
  by (auto simp: do_query_def answers_def)

lemma query_or_fallback_answers:
  "query_or_fallback coll c c' calls = (Inr r, calls') \<Longrightarrow> set (zip3 r) \<subseteq> answers coll"
  by (auto simp: query_or_fallback_def do_query_def answers_def split: sum.splits)

lemma stage2_by_ids_inv:
  assumes step: "\<And>st c. P st \<Longrightarrow> c \<in> answers coll \<Longrightarrow> P (merge_result st c)"
  shows "P st \<Longrightarrow> stage2_by_ids coll query n ids st calls = (Inr st', calls') \<Longrightarrow> P st'"
proof (induction ids arbitrary: st calls)
  case Nil
  then show ?case by simp
next
  case (Cons u ids)
  from Cons.prems(2) obtain r calls1 where
    q: "query_or_fallback coll
          \<lparr>query_text = query, n_results = n, where_filter = Some [(''unit_id'', u)]\<rparr>
          \<lparr>query_text = query, n_results = n, where_filter = None\<rparr> calls = (Inr r, calls1)"
    and rest: "stage2_by_ids coll query n ids (foldl merge_result st (zip3 r)) calls1 = (Inr st', calls')"
    by (auto split: prod.splits sum.splits)
  have "P (foldl merge_result st (zip3 r))"
    using query_or_fallback_answers [OF q] Cons.prems(1) by (intro foldl_inv [where P = P]) (auto intro: step)
  from Cons.IH [OF this rest] show ?case .
qed

lemma stage2_by_names_inv:
  assumes step: "\<And>st c. P st \<Longrightarrow> c \<in> answers coll \<Longrightarrow> P (merge_result st c)"
  shows "P st \<Longrightarrow> stage2_by_names coll query n names st calls = (Inr st', calls') \<Longrightarrow> P st'"
proof (induction names arbitrary: st calls)
  case Nil
  then show ?case by simp
next
  case (Cons u names)
  from Cons.prems(2) obtain r calls1 where
    q: "do_query coll
          \<lparr>query_text = u @ [32] @ query, n_results = n, where_filter = None\<rparr> calls = (Inr r, calls1)"
    and rest: "stage2_by_names coll query n names (foldl merge_result st (zip3 r)) calls1 = (Inr st', calls')"
    by (auto split: prod.splits sum.splits)
  have "P (foldl merge_result st (zip3 r))"
    using do_query_answers [OF q] Cons.prems(1) by (intro foldl_inv [where P = P]) (auto intro: step)
  from Cons.IH [OF this rest] show ?case .
qed

lemma append_by_ids_inv:
  assumes step: "\<And>st c. P st \<Longrightarrow> c \<in> answers coll \<Longrightarrow> P (append_location st c)"
  shows "P st \<Longrightarrow> append_by_ids coll m ids st calls = (Inr st', calls') \<Longrightarrow> P st'"
proof (induction ids arbitrary: st calls)
  case Nil
  then show ?case by simp
next
  case (Cons u ids)
  from Cons.prems(2) obtain r calls1 where
    q: "query_or_fallback coll
          \<lparr>query_text = u, n_results = m,
            where_filter = Some [(''unit_id'', u), (''type'', ascii ''location'')]\<rparr>
          \<lparr>query_text = u, n_results = m, where_filter = None\<rparr> calls = (Inr r, calls1)"
    and rest: "append_by_ids coll m ids (foldl append_location st (zip3 r)) calls1 = (Inr st', calls')"
    by (auto split: prod.splits sum.splits)
  have "P (foldl append_location st (zip3 r))"
    using query_or_fallback_answers [OF q] Cons.prems(1) by (intro foldl_inv [where P = P]) (auto intro: step)
  from Cons.IH [OF this rest] show ?case .
qed

lemma append_by_names_inv:
  assumes step: "\<And>st c. P st \<Longrightarrow> c \<in> answers coll \<Longrightarrow> P (append_location st c)"
  shows "P st \<Longrightarrow> append_by_names coll m names st calls = (Inr st', calls') \<Longrightarrow> P st'"
proof (induction names arbitrary: st calls)
  case Nil
  then show ?case by simp
next
  case (Cons u names)
  from Cons.prems(2) obtain r calls1 where
    q: "do_query coll \<lparr>query_text = u, n_results = m, where_filter = None\<rparr> calls = (Inr r, calls1)"
    and rest: "append_by_names coll m names (foldl append_location st (zip3 r)) calls1 = (Inr st', calls')"
    by (auto split: prod.splits sum.splits)
  have "P (foldl append_location st (zip3 r))"
    using do_query_answers [OF q] Cons.prems(1) by (intro foldl_inv [where P = P]) (auto intro: step)
  from Cons.IH [OF this rest] show ?case .
qed

end
